theory Spec2Isabelle
  imports Main
begin

section \<open>Configuration\<close>

text \<open>
  \<^verbatim>\<open>pkg/config/config.go\<close> declares plain structs and nothing else: no constructor, no
  loader and no validation. Go's \<^verbatim>\<open>int\<close> fields are kept as \<^typ>\<open>int\<close>;
  \<^verbatim>\<open>time.Duration\<close> is a count of nanoseconds.
\<close>

record DatabaseConfig =
  Host :: string
  Port :: int
  User :: string
  Password :: string
  DBName :: string

record ServerConfig =
  ServerPort :: int
  ShutdownTimeout :: int

record EngineConfig =
  WorkerCount :: int
  DefaultTimeout :: int

record Config =
  Database :: DatabaseConfig
  Server :: ServerConfig
  Engine :: EngineConfig


section \<open>Requests and response writers\<close>

text \<open>
  Both handlers of the repository have the signature
  \<^verbatim>\<open>func(w http.ResponseWriter, r *http.Request)\<close>. A request is a record of the parts a
  handler could look at. The response writer is the in-memory recorder of the standard
  library: it keeps the status code, the bytes handed to \<^verbatim>\<open>Write\<close> in order, and whether
  the header has gone out. A first \<^verbatim>\<open>Write\<close> sends the header with status 200; a second
  \<^verbatim>\<open>WriteHeader\<close> is ignored.
\<close>

record Request =
  Method :: string
  URLPath :: string
  ReqHeader :: "(string \<times> string) list"
  ReqBody :: string

record ResponseWriter =
  Code :: nat
  Body :: string
  wroteHeader :: bool

type_synonym HandlerFunc = "ResponseWriter \<Rightarrow> Request \<Rightarrow> ResponseWriter"

definition NewRecorder :: ResponseWriter where
  "NewRecorder = \<lparr>Code = 200, Body = [], wroteHeader = False\<rparr>"

definition WriteHeader :: "ResponseWriter \<Rightarrow> nat \<Rightarrow> ResponseWriter" where
  "WriteHeader w c = (if wroteHeader w then w else w\<lparr>Code := c, wroteHeader := True\<rparr>)"

definition Write :: "ResponseWriter \<Rightarrow> string \<Rightarrow> ResponseWriter" where
  "Write w buf = (let w' = WriteHeader w 200 in w'\<lparr>Body := Body w' @ buf\<rparr>)"

text \<open>
  \<^verbatim>\<open>fmt.Fprintln\<close> on string operands: the operands in their default format, a space
  between every two of them, and a newline at the end, handed to the writer in one
  \<^verbatim>\<open>Write\<close>.
\<close>

fun sprintln :: "string list \<Rightarrow> string" where
  "sprintln [] = [CHR 0x0A]"
| "sprintln [a] = a @ [CHR 0x0A]"
| "sprintln (a # b # rest) = a @ CHR '' '' # sprintln (b # rest)"

definition Fprintln :: "ResponseWriter \<Rightarrow> string list \<Rightarrow> ResponseWriter" where
  "Fprintln w operands = Write w (sprintln operands)"


section \<open>The router\<close>

text \<open>
  \<^verbatim>\<open>NewRouter\<close> returns an empty chi multiplexer. Of the multiplexer the model keeps what
  \<^verbatim>\<open>main\<close> uses: the middleware stack filled by \<^verbatim>\<open>Use\<close>, the table of routes filled by
  \<^verbatim>\<open>Get\<close> (keyed by method and pattern, a later registration shadowing an earlier one),
  and \<^verbatim>\<open>ServeHTTP\<close>, which runs the middleware stack around the routing step. Patterns
  are static paths, as the only pattern of the repository is; a path no route matches is
  answered 404, a path registered under another method only 405.
\<close>

record Mux =
  middlewares :: "(HandlerFunc \<Rightarrow> HandlerFunc) list"
  routes :: "((string \<times> string) \<times> HandlerFunc) list"

definition NewRouter :: Mux where
  "NewRouter = \<lparr>middlewares = [], routes = []\<rparr>"

definition Use :: "Mux \<Rightarrow> (HandlerFunc \<Rightarrow> HandlerFunc) \<Rightarrow> Mux" where
  "Use mx mw = mx\<lparr>middlewares := middlewares mx @ [mw]\<rparr>"

definition Get :: "Mux \<Rightarrow> string \<Rightarrow> HandlerFunc \<Rightarrow> Mux" where
  "Get mx pattern h = mx\<lparr>routes := ((''GET'', pattern), h) # routes mx\<rparr>"

definition NotFound :: HandlerFunc where
  "NotFound w r = Fprintln (WriteHeader w 404) [''404 page not found'']"

definition methodNotAllowed :: HandlerFunc where
  "methodNotAllowed w r = Write (WriteHeader w 405) []"

definition routeHTTP :: "Mux \<Rightarrow> HandlerFunc" where
  "routeHTTP mx w r =
     (case map_of (routes mx) (Method r, URLPath r) of
        Some h \<Rightarrow> h w r
      | None \<Rightarrow>
          if URLPath r \<in> set (map (snd \<circ> fst) (routes mx))
          then methodNotAllowed w r
          else NotFound w r)"

definition chain :: "(HandlerFunc \<Rightarrow> HandlerFunc) list \<Rightarrow> HandlerFunc \<Rightarrow> HandlerFunc" where
  "chain mws endpoint = foldr (\<lambda>mw h. mw h) mws endpoint"

definition ServeHTTP :: "Mux \<Rightarrow> HandlerFunc" where
  "ServeHTTP mx = chain (middlewares mx) (routeHTTP mx)"

text \<open>
  \<^verbatim>\<open>middleware.Logger\<close> hands the request on to the next handler and prints one line to
  the standard output once it returns; it writes nothing to the response.
\<close>

definition Logger :: "HandlerFunc \<Rightarrow> HandlerFunc" where
  "Logger next = (\<lambda>w r. next w r)"


section \<open>The handlers of the repository\<close>

text \<open>The function literal that \<^verbatim>\<open>main\<close> registers for \<^verbatim>\<open>GET /\<close>.\<close>

definition rootHandler :: HandlerFunc where
  "rootHandler w r = Write w ''welcome''"

text \<open>
  \<^verbatim>\<open>main\<close>: a new router, the logger installed, the root handler on \<^verbatim>\<open>/\<close>; the router is
  then the handler of the server listening on port 3000.
\<close>

definition main_router :: Mux where
  "main_router = Get (Use NewRouter Logger) ''/'' rootHandler"

text \<open>\<^verbatim>\<open>helloHandler\<close> of package \<^verbatim>\<open>api\<close>.\<close>

definition helloHandler :: HandlerFunc where
  "helloHandler w r = Fprintln w [''Hello World'']"


section \<open>Properties\<close>

lemma Write_NewRecorder:
  "Write NewRecorder buf = \<lparr>Code = 200, Body = buf, wroteHeader = True\<rparr>"
  by (simp add: Write_def WriteHeader_def NewRecorder_def)

lemma Body_Write: "Body (Write w buf) = Body w @ buf"
  by (simp add: Write_def WriteHeader_def)

lemma ServeHTTP_main_router:
  "ServeHTTP main_router w r = routeHTTP main_router w r"
  by (simp add: ServeHTTP_def main_router_def Get_def Use_def NewRouter_def chain_def Logger_def)

lemma routes_main_router: "routes main_router = [((''GET'', ''/''), rootHandler)]"
  by (simp add: main_router_def Get_def Use_def NewRouter_def)

text \<open>
  C9. Whatever else a request holds, when its method is GET and its path is \<^verbatim>\<open>/\<close> the
  server of \<^verbatim>\<open>main\<close> answers it with one write of the seven bytes \<^verbatim>\<open>welcome\<close>: on a
  fresh response that is status 200 and the body \<^verbatim>\<open>welcome\<close> and nothing more. The answer
  does not mention the request.
\<close>

theorem main_get_root_writes_welcome:
  assumes "Method r = ''GET''" and "URLPath r = ''/''"
  shows "ServeHTTP main_router w r = Write w ''welcome'' \<and>
         ServeHTTP main_router NewRecorder r =
           \<lparr>Code = 200, Body = ''welcome'', wroteHeader = True\<rparr>"
proof -
  have "routeHTTP main_router w' r = rootHandler w' r" for w'
    using assms by (simp add: routeHTTP_def routes_main_router)
  then show ?thesis
    by (simp add: ServeHTTP_main_router rootHandler_def Write_NewRecorder)
qed

theorem main_get_root_writes_welcome_witness:
  "ServeHTTP main_router NewRecorder
     \<lparr>Method = ''GET'', URLPath = ''/'',
      ReqHeader = [(''Accept'', ''text/html'')], ReqBody = ''ignored''\<rparr> =
   \<lparr>Code = 200, Body = ''welcome'', wroteHeader = True\<rparr>"
  using main_get_root_writes_welcome
    [of "\<lparr>Method = ''GET'', URLPath = ''/'',
          ReqHeader = [(''Accept'', ''text/html'')], ReqBody = ''ignored''\<rparr>" NewRecorder]
  by (simp add: Write_NewRecorder)

text \<open>
  C10. \<^verbatim>\<open>helloHandler\<close> never reads its request: on the same response writer any two
  requests leave the same result, which is the writer after one write of the line
  \<^verbatim>\<open>Hello World\<close> and a newline; these twelve bytes are appended to the body.
\<close>

theorem helloHandler_ignores_request:
  "helloHandler w r = helloHandler w r' \<and>
   helloHandler w r = Write w (''Hello World'' @ [CHR 0x0A]) \<and>
   Body (helloHandler w r) = Body w @ ''Hello World'' @ [CHR 0x0A]"
  by (simp add: helloHandler_def Fprintln_def Body_Write)

end
